theory Spec2Isabelle
  imports Complex_Main
begin

section \<open>The gametime module: values, errors and constants\<close>

text \<open>
  The module \<^verbatim>\<open>typeclasses/scripts/gametime.py\<close> is read with the semantics of Python 3:
  \<^verbatim>\<open>/\<close> is true division (also between two integers), \<^verbatim>\<open>%\<close> is the floored
  remainder, and an ordering comparison between \<^verbatim>\<open>None\<close> and a number raises
  \<^verbatim>\<open>TypeError\<close>.

  Python numbers (integers and floats) are modelled by exact rationals: the rounding of
  float arithmetic is not modelled, and a state holds no infinite float and no NaN. A
  number stands for the float nearest to it, which matters where the module calls
  \<^verbatim>\<open>int\<close> (see \<open>py_int\<close>). A Python value that may be \<^verbatim>\<open>None\<close> is a
  \<open>rat option\<close>. Every exception the module can raise is a value of \<open>pyerr\<close>, and a
  function that may raise returns \<open>pyerr + 'a\<close>.
\<close>

datatype pyerr = TypeError | ValueError | IndexError | IOError | ZeroDivisionError
  | OverflowError | DoesNotExist

text \<open>The result of an access function: a number, or the tuple built by \<^verbatim>\<open>_format\<close>.\<close>

datatype pyresult = Num rat | Tuple "rat list"

text \<open>The game-time units of the module, in seconds (\<open>MIN_unit\<close> is the source's \<^verbatim>\<open>MIN\<close>,
  a name that Isabelle reserves).\<close>

definition MIN_unit :: int where "MIN_unit = 60"
definition HOUR :: int where "HOUR = MIN_unit * 60"
definition DAY :: int where "DAY = HOUR * 24"
definition WEEK :: int where "WEEK = DAY * 7"
definition MONTH :: int where "MONTH = WEEK * 4"
definition YEAR :: int where "YEAR = MONTH * 12"

text \<open>The divisors of real time that \<^verbatim>\<open>runtime\<close>, \<^verbatim>\<open>uptime\<close> and
  \<^verbatim>\<open>gametime_to_realtime\<close> pass to \<^verbatim>\<open>_format\<close>, and those of game time.\<close>

definition real_divisors :: "int list" where
  "real_divisors = [31536000, 2628000, 604800, 86400, 3600, 60]"

definition game_divisors :: "int list" where
  "game_divisors = [YEAR, MONTH, WEEK, DAY, HOUR, MIN_unit]"

section \<open>The duration formatter\<close>

text \<open>
  The largest finite float is \<^verbatim>\<open>2**1024 - 2**971\<close>. A result of float arithmetic
  whose magnitude reaches \<^verbatim>\<open>2**1024 - 2**970\<close> is rounded to an infinite float.
\<close>

definition float_inf_from :: rat where
  "float_inf_from = 2 ^ 1024 - 2 ^ 970"

text \<open>
  \<^verbatim>\<open>int(x)\<close> on a number truncates towards zero, and raises \<^verbatim>\<open>OverflowError\<close> on an
  infinite float. (It raises \<^verbatim>\<open>ValueError\<close> on NaN, which no number of the model stands
  for.)
\<close>

definition py_int :: "rat \<Rightarrow> pyerr + int" where
  "py_int x =
     (if float_inf_from \<le> \<bar>x\<bar> then Inl OverflowError
      else Inr (if 0 \<le> x then \<lfloor>x\<rfloor> else \<lceil>x\<rceil>))"

text \<open>
  The loop of \<^verbatim>\<open>_format\<close>: for each divisor, \<^verbatim>\<open>results.append(seconds / divisor)\<close>
  and then \<^verbatim>\<open>seconds %= divisor\<close>; after the loop the remaining seconds are appended.
  Both operators raise \<^verbatim>\<open>ZeroDivisionError\<close> on a zero divisor.
\<close>

fun format_loop :: "int \<Rightarrow> int list \<Rightarrow> pyerr + rat list" where
  "format_loop seconds [] = Inr [of_int seconds]"
| "format_loop seconds (divisor # divisors) =
     (if divisor = 0 then Inl ZeroDivisionError
      else (case format_loop (seconds mod divisor) divisors of
              Inl e \<Rightarrow> Inl e
            | Inr results \<Rightarrow> Inr (of_int seconds / of_int divisor # results)))"

text \<open>\<^verbatim>\<open>_format(seconds, *divisors)\<close>, which starts with \<^verbatim>\<open>seconds = int(seconds)\<close>; an
  Isabelle name cannot start with an underscore.\<close>

definition private_format :: "rat \<Rightarrow> int list \<Rightarrow> pyerr + rat list" where
  "private_format seconds divisors =
     (case py_int seconds of
        Inl e \<Rightarrow> Inl e
      | Inr n \<Rightarrow> format_loop n divisors)"

text \<open>The weighted sum of a formatted tuple: each quotient times its divisor, the last
  element times one.\<close>

fun weighted_sum :: "rat list \<Rightarrow> int list \<Rightarrow> rat" where
  "weighted_sum [] ds = 0"
| "weighted_sum (r # rs) [] = r + weighted_sum rs []"
| "weighted_sum (r # rs) (d # ds) = r * of_int d + weighted_sum rs ds"

section \<open>The state of the module\<close>

text \<open>
  The module's globals, the attributes of the script in the attribute store, whether the
  script \<^verbatim>\<open>sys_game_time\<close> can be fetched from the database, and the backup file
  (\<open>None\<close> when it cannot be opened, otherwise its text).
\<close>

record state =
  SERVER_RUNTIME :: "rat option"
  SERVER_STARTTIME :: rat
  TIMEFACTOR :: rat
  attributes :: "string \<rightharpoonup> rat"
  script_exists :: bool
  BACKUP_FILE :: "string option"

section \<open>Access functions\<close>

text \<open>
  The wall-clock reading \<^verbatim>\<open>time()\<close> is the argument \<open>now\<close>.
  \<^verbatim>\<open>SERVER_RUNTIME + (time() - SERVER_STARTTIME)\<close> raises \<^verbatim>\<open>TypeError\<close> when
  \<^verbatim>\<open>SERVER_RUNTIME\<close> is \<^verbatim>\<open>None\<close>.
\<close>

definition formatted :: "rat \<Rightarrow> int list \<Rightarrow> pyerr + pyresult" where
  "formatted x divisors =
     (case private_format x divisors of Inl e \<Rightarrow> Inl e | Inr t \<Rightarrow> Inr (Tuple t))"

text \<open>Arithmetic on the result of an unformatted call: a number is used as it is.\<close>

fun the_num :: "pyerr + pyresult \<Rightarrow> pyerr + rat" where
  "the_num (Inr (Num x)) = Inr x"
| "the_num (Inr (Tuple t)) = Inl TypeError"
| "the_num (Inl e) = Inl e"

definition runtime :: "bool \<Rightarrow> rat \<Rightarrow> state \<Rightarrow> pyerr + pyresult" where
  "runtime format now st =
     (case SERVER_RUNTIME st of
        None \<Rightarrow> Inl TypeError
      | Some r \<Rightarrow>
          (let runtime = r + (now - SERVER_STARTTIME st)
           in if format then formatted runtime real_divisors else Inr (Num runtime)))"

definition uptime :: "bool \<Rightarrow> rat \<Rightarrow> state \<Rightarrow> pyerr + pyresult" where
  "uptime format now st =
     (let uptime = now - SERVER_STARTTIME st
      in if format then formatted uptime real_divisors else Inr (Num uptime))"

definition gametime :: "bool \<Rightarrow> rat \<Rightarrow> state \<Rightarrow> pyerr + pyresult" where
  "gametime format now st =
     (case the_num (runtime False now st) of
        Inl e \<Rightarrow> Inl e
      | Inr rt \<Rightarrow>
          (let gametime = rt * TIMEFACTOR st
           in if format then formatted gametime game_divisors else Inr (Num gametime)))"

section \<open>Conversions between game time and real time\<close>

definition gametime_to_realtime ::
  "rat \<Rightarrow> rat \<Rightarrow> rat \<Rightarrow> rat \<Rightarrow> rat \<Rightarrow> rat \<Rightarrow> rat \<Rightarrow> bool \<Rightarrow> state \<Rightarrow> pyerr + pyresult" where
  "gametime_to_realtime secs mins hrs days weeks months yrs format st =
     (if TIMEFACTOR st = 0 then Inl ZeroDivisionError
      else
        (let realtime = (secs + mins * of_int MIN_unit + hrs * of_int HOUR + days * of_int DAY
                         + weeks * of_int WEEK + months * of_int MONTH + yrs * of_int YEAR)
                        / TIMEFACTOR st
         in if format then formatted realtime real_divisors else Inr (Num realtime)))"

definition realtime_to_gametime ::
  "rat \<Rightarrow> rat \<Rightarrow> rat \<Rightarrow> rat \<Rightarrow> rat \<Rightarrow> rat \<Rightarrow> rat \<Rightarrow> bool \<Rightarrow> state \<Rightarrow> pyerr + pyresult" where
  "realtime_to_gametime secs mins hrs days weeks months yrs format st =
     (let gametime = TIMEFACTOR st * (secs + mins * 60 + hrs * 3600 + days * 86400
                                      + weeks * 604800 + months * 2628000 + yrs * 31536000)
      in if format then formatted gametime game_divisors else Inr (Num gametime))"

section \<open>Reading the backup file\<close>

text \<open>
  Text of a file as Python iterates over it: the lines, each with its newline, the last
  one possibly without. \<^verbatim>\<open>readline()\<close> on a fresh handle gives the first line, or the
  empty string at the end of the file. The file is opened in text mode, where a line
  ends at a line feed, at a carriage return followed by a line feed, and at a bare
  carriage return, and each of the three is handed to the program as one line feed.
  Characters are bytes: \<^verbatim>\<open>isdigit\<close> holds for the ASCII digits and \<^verbatim>\<open>strip\<close> removes
  ASCII white space (digits and spaces beyond ASCII are not modelled).
\<close>

definition newline :: char where
  "newline = CHR 0x0A"

definition carriage_return :: char where
  "carriage_return = CHR 0x0D"

fun readlines :: "string \<Rightarrow> string list" where
  "readlines [] = []"
| "readlines [c] = (if c = newline \<or> c = carriage_return then [[newline]] else [[c]])"
| "readlines (c # d # cs) =
     (if c = carriage_return \<and> d = newline then [newline] # readlines cs
      else if c = newline \<or> c = carriage_return then [newline] # readlines (d # cs)
      else (case readlines (d # cs) of [] \<Rightarrow> [[c]] | l # ls \<Rightarrow> (c # l) # ls))"

definition readline :: "string \<Rightarrow> string" where
  "readline text = (case readlines text of [] \<Rightarrow> [] | l # ls \<Rightarrow> l)"

definition isdigit :: "char \<Rightarrow> bool" where
  "isdigit c = (c \<in> set ''0123456789'')"

definition isspace :: "char \<Rightarrow> bool" where
  "isspace c = (c \<in> {CHR '' '', CHR 0x09, CHR 0x0A, CHR 0x0B, CHR 0x0C, CHR 0x0D})"

definition strip :: "string \<Rightarrow> string" where
  "strip s = rev (dropWhile isspace (rev (dropWhile isspace s)))"

text \<open>
  The body of the \<^verbatim>\<open>try\<close> block that \<^verbatim>\<open>at_start\<close> runs on the backup file, up to
  \<^verbatim>\<open>last_time = float(lines[-1])\<close>:
  \<^verbatim>\<open>lines = [line.strip() for line in logfile if line[0].isdigit()]\<close>.
  The builtin \<^verbatim>\<open>float\<close> is the parameter \<open>pfloat\<close> (\<open>None\<close> where it raises
  \<^verbatim>\<open>ValueError\<close>): what is proved holds for every such function.
\<close>

definition read_last_time :: "(string \<Rightarrow> rat option) \<Rightarrow> string option \<Rightarrow> pyerr + rat" where
  "read_last_time pfloat logfile =
     (case logfile of
        None \<Rightarrow> Inl IOError
      | Some text \<Rightarrow>
          (if [] \<in> set (readlines text) then Inl IndexError
           else
             (let lines = map strip (filter (\<lambda>line. isdigit (hd line)) (readlines text))
              in if lines = [] then Inl IndexError
                 else (case pfloat (last lines) of
                         None \<Rightarrow> Inl ValueError
                       | Some last_time \<Rightarrow> Inr last_time))))"

section \<open>The script: recovery and the periodic tick\<close>

text \<open>
  \<^verbatim>\<open>at_start\<close>: \<^verbatim>\<open>SERVER_RUNTIME = self.attributes.get("run_time")\<close> (\<^verbatim>\<open>None\<close> when
  the attribute is missing), then the \<^verbatim>\<open>try\<close> block; any exception in it is logged and
  leaves \<^verbatim>\<open>SERVER_RUNTIME\<close> as it is. The comparison
  \<^verbatim>\<open>SERVER_RUNTIME < last_time\<close> is one of those exceptions when \<^verbatim>\<open>SERVER_RUNTIME\<close>
  is \<^verbatim>\<open>None\<close>.
\<close>

definition at_start :: "(string \<Rightarrow> rat option) \<Rightarrow> state \<Rightarrow> state" where
  "at_start pfloat st =
     (let st1 = st\<lparr>SERVER_RUNTIME := attributes st ''run_time''\<rparr>
      in case read_last_time pfloat (BACKUP_FILE st1) of
           Inl e \<Rightarrow> st1
         | Inr last_time \<Rightarrow>
             (case SERVER_RUNTIME st1 of
                None \<Rightarrow> st1
              | Some r \<Rightarrow> if r < last_time then st1\<lparr>SERVER_RUNTIME := Some last_time\<rparr> else st1))"

text \<open>
  \<^verbatim>\<open>at_repeat\<close>, with the two readings of the clock taken by \<^verbatim>\<open>runtime()\<close> and
  \<^verbatim>\<open>uptime()\<close>. An exception of \<^verbatim>\<open>runtime()\<close> in the first statement leaves the
  method; the check of \<^verbatim>\<open>SERVER_RUNTIME < 1000\<close> is inside a \<^verbatim>\<open>try\<close>.
\<close>

definition at_repeat :: "(string \<Rightarrow> rat option) \<Rightarrow> rat \<Rightarrow> rat \<Rightarrow> state \<Rightarrow> pyerr + state" where
  "at_repeat pfloat t1 t2 st =
     (case the_num (runtime False t1 st) of
        Inl e \<Rightarrow> Inl e
      | Inr rt \<Rightarrow>
          (let st1 = st\<lparr>attributes := (attributes st)(''run_time'' \<mapsto> rt)\<rparr>
           in case the_num (uptime False t2 st1) of
                Inl e \<Rightarrow> Inl e
              | Inr up \<Rightarrow>
                  (let st2 = st1\<lparr>attributes := (attributes st1)(''up_time'' \<mapsto> up)\<rparr>
                   in case SERVER_RUNTIME st2 of
                        None \<Rightarrow> Inr st2
                      | Some r \<Rightarrow> if r < 1000 then Inr (at_start pfloat st2) else Inr st2)))"

section \<open>The forced save\<close>

text \<open>
  \<^verbatim>\<open>logfile.seek(0); logfile.write(s)\<close> on a file opened with \<^verbatim>\<open>'r+'\<close>: the text
  \<open>s\<close> replaces the first characters of the file, what lies beyond it stays.
\<close>

definition overwrite :: "string \<Rightarrow> string \<Rightarrow> string" where
  "overwrite s text = s @ drop (length s) text"

text \<open>
  The second \<^verbatim>\<open>try\<close> block of \<^verbatim>\<open>save\<close>. The builtin \<^verbatim>\<open>str\<close> on a number is the
  parameter \<open>pstr\<close>; \<open>t3\<close> and \<open>t4\<close> are the clock readings of the two calls of
  \<^verbatim>\<open>runtime()\<close>. A file that cannot be opened, a first line that \<^verbatim>\<open>float\<close> rejects
  and an exception of \<^verbatim>\<open>runtime()\<close> all end in the \<^verbatim>\<open>except\<close> branch, which writes
  nothing.
\<close>

definition write_runtime :: "(rat \<Rightarrow> string) \<Rightarrow> rat \<Rightarrow> string \<Rightarrow> state \<Rightarrow> state" where
  "write_runtime pstr t4 text st =
     (case the_num (runtime False t4 st) of
        Inl e \<Rightarrow> st
      | Inr rt \<Rightarrow> st\<lparr>BACKUP_FILE := Some (overwrite (pstr rt) text)\<rparr>)"

definition save_backup ::
  "(string \<Rightarrow> rat option) \<Rightarrow> (rat \<Rightarrow> string) \<Rightarrow> rat \<Rightarrow> rat \<Rightarrow> state \<Rightarrow> state" where
  "save_backup pfloat pstr t3 t4 st =
     (case BACKUP_FILE st of
        None \<Rightarrow> st
      | Some text \<Rightarrow>
          (let data = readline text
           in if data = [] then write_runtime pstr t4 text st
              else (case pfloat data of
                      None \<Rightarrow> st
                    | Some v \<Rightarrow>
                        (case the_num (runtime False t3 st) of
                           Inl e \<Rightarrow> st
                         | Inr rt \<Rightarrow> if v < rt then write_runtime pstr t4 text st else st))))"

text \<open>
  \<^verbatim>\<open>save()\<close>: the first \<^verbatim>\<open>try\<close> block fetches the script and runs its \<^verbatim>\<open>at_repeat\<close>
  (a missing script and an exception of \<^verbatim>\<open>at_repeat\<close> are logged), the second one
  updates the backup file.
\<close>

definition save_tick :: "(string \<Rightarrow> rat option) \<Rightarrow> rat \<Rightarrow> rat \<Rightarrow> state \<Rightarrow> state" where
  "save_tick pfloat t1 t2 st =
     (if script_exists st
      then (case at_repeat pfloat t1 t2 st of Inl e \<Rightarrow> st | Inr st' \<Rightarrow> st')
      else st)"

definition save ::
  "(string \<Rightarrow> rat option) \<Rightarrow> (rat \<Rightarrow> string) \<Rightarrow> rat \<Rightarrow> rat \<Rightarrow> rat \<Rightarrow> rat \<Rightarrow> state \<Rightarrow> state" where
  "save pfloat pstr t1 t2 t3 t4 st = save_backup pfloat pstr t3 t4 (save_tick pfloat t1 t2 st)"

section \<open>Decimal literals\<close>

text \<open>
  Two concrete functions for the builtins on decimal literals, used to run the model on
  concrete files. \<open>float_decimal\<close> reads an unsigned literal
  \<^verbatim>\<open>digits[.digits][e[+|-]digits]\<close> surrounded by white space, as \<^verbatim>\<open>float\<close> does,
  and rejects everything else; \<open>str_decimal\<close> prints a number with a short decimal
  expansion as \<^verbatim>\<open>str\<close> prints the float of that value (at least one digit after the
  point).
\<close>

definition digit_val :: "char \<Rightarrow> nat" where
  "digit_val c = of_char c - 48"

definition digits_val :: "string \<Rightarrow> nat" where
  "digits_val s = foldl (\<lambda>n c. 10 * n + digit_val c) 0 s"

definition mantissa :: "string \<Rightarrow> rat option" where
  "mantissa m =
     (let ip = takeWhile isdigit m; rest = dropWhile isdigit m
      in if ip = [] then None
         else if rest = [] then Some (of_nat (digits_val ip))
         else if hd rest = CHR ''.'' \<and> list_all isdigit (tl rest)
         then Some (of_nat (digits_val ip) + of_nat (digits_val (tl rest)) / 10 ^ length (tl rest))
         else None)"

definition exponent :: "string \<Rightarrow> int option" where
  "exponent x =
     (case x of
        [] \<Rightarrow> Some 0
      | e # ds \<Rightarrow>
          (let neg = (ds \<noteq> [] \<and> hd ds = CHR ''-'');
               ds' = (if ds \<noteq> [] \<and> hd ds \<in> {CHR ''-'', CHR ''+''} then tl ds else ds)
           in if ds' = [] \<or> \<not> list_all isdigit ds' then None
              else Some (if neg then - int (digits_val ds') else int (digits_val ds'))))"

definition float_decimal :: "string \<Rightarrow> rat option" where
  "float_decimal s =
     (let t = strip s;
          is_e = (\<lambda>c. c = CHR ''e'' \<or> c = CHR ''E'');
          m = takeWhile (\<lambda>c. \<not> is_e c) t;
          x = dropWhile (\<lambda>c. \<not> is_e c) t
      in case (mantissa m, exponent x) of
           (Some v, Some k) \<Rightarrow> Some (if 0 \<le> k then v * 10 ^ nat k else v / 10 ^ nat (- k))
         | _ \<Rightarrow> None)"

definition digit_char :: "nat \<Rightarrow> char" where
  "digit_char d = (if d < 10 then ''0123456789'' ! d else CHR ''?'')"

fun nat_digits :: "nat \<Rightarrow> string" where
  "nat_digits n = (if n < 10 then [digit_char n] else nat_digits (n div 10) @ [digit_char (n mod 10)])"

fun frac_digits :: "nat \<Rightarrow> rat \<Rightarrow> string" where
  "frac_digits k r =
     (if k = 0 \<or> r = 0 then []
      else digit_char (nat \<lfloor>r * 10\<rfloor>) # frac_digits (k - 1) (r * 10 - of_int \<lfloor>r * 10\<rfloor>))"

definition str_decimal :: "rat \<Rightarrow> string" where
  "str_decimal x =
     (let a = \<bar>x\<bar>; f = a - of_int \<lfloor>a\<rfloor>
      in (if x < 0 then ''-'' else []) @ nat_digits (nat \<lfloor>a\<rfloor>) @ ''.''
         @ (if f = 0 then ''0'' else frac_digits 16 f))"

section \<open>Example states\<close>

text \<open>
  The state right after the module has been imported at clock reading 0, with a time
  factor of 2: \<^verbatim>\<open>SERVER_RUNTIME = 0.0\<close>, no script in the database, no attribute, no
  backup file.
\<close>

definition fresh :: state where
  "fresh = \<lparr>SERVER_RUNTIME = Some 0, SERVER_STARTTIME = 0, TIMEFACTOR = 2,
            attributes = Map.empty, script_exists = False, BACKUP_FILE = None\<rparr>"

section \<open>Evaluation and auxiliary facts\<close>

lemmas float_eval = float_decimal_def strip_def isspace_def mantissa_def exponent_def
  isdigit_def digits_val_def digit_val_def Let_def

lemmas str_eval = str_decimal_def digit_char_def Let_def

lemmas run_eval = save_def save_tick_def save_backup_def write_runtime_def at_repeat_def
  at_start_def read_last_time_def readline_def runtime_def uptime_def gametime_def
  overwrite_def newline_def carriage_return_def fresh_def

lemma format_loop_total:
  "0 \<notin> set ds \<Longrightarrow> \<exists>t. format_loop s ds = Inr t"
proof (induction ds arbitrary: s)
  case Nil
  show ?case by simp
next
  case (Cons d ds)
  then have "0 \<notin> set ds" and d: "d \<noteq> 0" by auto
  then obtain t where "format_loop (s mod d) ds = Inr t"
    using Cons.IH by blast
  with d show ?case by simp
qed

text \<open>Numbers of magnitude up to \<open>2 ^ 1023\<close> stand for finite floats.\<close>

lemma py_int_in_range:
  assumes "\<bar>x\<bar> \<le> 2 ^ 1023"
  shows "\<exists>n. py_int x = Inr n"
proof -
  have "(2::rat) ^ 1023 < float_inf_from" by (simp add: float_inf_from_def)
  with assms have "\<not> float_inf_from \<le> \<bar>x\<bar>" by linarith
  then show ?thesis by (simp add: py_int_def)
qed

lemma formatted_real_total:
  assumes "\<bar>x\<bar> \<le> 2 ^ 1023"
  shows "\<exists>v. formatted x real_divisors = Inr v"
proof -
  obtain n where n: "py_int x = Inr n"
    using py_int_in_range [OF assms] by blast
  have "0 \<notin> set real_divisors" by (simp add: real_divisors_def)
  then obtain t where "format_loop n real_divisors = Inr t"
    using format_loop_total by blast
  with n show ?thesis by (simp add: formatted_def private_format_def)
qed

lemma formatted_game_total:
  assumes "\<bar>x\<bar> \<le> 2 ^ 1023"
  shows "\<exists>v. formatted x game_divisors = Inr v"
proof -
  obtain n where n: "py_int x = Inr n"
    using py_int_in_range [OF assms] by blast
  have "0 \<notin> set game_divisors"
    by (simp add: game_divisors_def MIN_unit_def HOUR_def DAY_def WEEK_def MONTH_def YEAR_def)
  then obtain t where "format_loop n game_divisors = Inr t"
    using format_loop_total by blast
  with n show ?thesis by (simp add: formatted_def private_format_def)
qed

text \<open>Sums and products of numbers of magnitude up to \<open>2 ^ 500\<close> stay in that range.\<close>

lemma sum_in_range:
  fixes r u :: rat
  assumes "\<bar>r\<bar> \<le> 2 ^ 500" and "\<bar>u\<bar> \<le> 2 ^ 500"
  shows "\<bar>r + u\<bar> \<le> 2 ^ 501"
proof -
  have "\<bar>r + u\<bar> \<le> \<bar>r\<bar> + \<bar>u\<bar>" by (rule abs_triangle_ineq)
  also have "\<dots> \<le> 2 ^ 500 + 2 ^ 500" using assms by (rule add_mono)
  also have "(2::rat) ^ 500 + 2 ^ 500 = 2 ^ 501" by simp
  finally show ?thesis .
qed

lemma product_in_range:
  fixes r u f :: rat
  assumes "\<bar>r\<bar> \<le> 2 ^ 500" and "\<bar>u\<bar> \<le> 2 ^ 500" and "\<bar>f\<bar> \<le> 2 ^ 500"
  shows "\<bar>(r + u) * f\<bar> \<le> 2 ^ 1023"
proof -
  have "\<bar>(r + u) * f\<bar> = \<bar>r + u\<bar> * \<bar>f\<bar>" by (rule abs_mult)
  also have "\<dots> \<le> 2 ^ 501 * 2 ^ 500"
    using sum_in_range [OF assms(1,2)] assms(3) by (intro mult_mono) simp_all
  also have "(2::rat) ^ 501 * 2 ^ 500 \<le> 2 ^ 1023" by simp
  finally show ?thesis .
qed

section \<open>The duration formatter divides truly\<close>

text \<open>Whatever the divisors, a tuple that is returned has one element more than there are
  divisors.\<close>

lemma format_loop_length:
  "format_loop s ds = Inr t \<Longrightarrow> length t = length ds + 1"
proof (induction ds arbitrary: s t)
  case Nil
  then show ?case by auto
next
  case (Cons d ds)
  then show ?case by (auto split: if_splits sum.splits)
qed

text \<open>
  Claim C2 (fails on the code). The claim: for non-negative seconds and positive integer
  divisors \<^verbatim>\<open>_format\<close> returns the integer quotients of the progressive division
  followed by the remaining seconds, and \<^verbatim>\<open>_format(3725, 3600, 60) = (1, 2, 5)\<close>. The
  docstring says the same (``integer-divided''). The code appends
  \<^verbatim>\<open>seconds / divisor\<close>, a true division: on 3725 seconds with the divisors 3600 and 60
  the tuple is (3725/3600, 125/60, 5), that is (1.0347..., 2.0833..., 5).
\<close>

theorem format_3725_true_division:
  "private_format 3725 [3600, 60] = Inr [149 / 144, 25 / 12, 5]"
  by (simp add: private_format_def py_int_def float_inf_from_def)

text \<open>
  Claim C6 (fails on the code, by the same division). The claim: the quotients times
  their divisors plus the remainder give back \<open>floor(s)\<close>. With true quotients every
  product \<open>q\<^sub>i * d\<^sub>i\<close> is the whole amount that was left before that step, so on 3725
  seconds the weighted sum is 3725 + 125 + 5 = 3855.
\<close>

theorem format_3725_weighted_sum:
  "\<exists>t. private_format 3725 [3600, 60] = Inr t \<and> weighted_sum t [3600, 60] = 3855
       \<and> weighted_sum t [3600, 60] \<noteq> of_int \<lfloor>3725 :: rat\<rfloor>"
  by (simp add: private_format_def py_int_def float_inf_from_def)

section \<open>Conversions\<close>

text \<open>
  Claim C4. Without formatting, \<^verbatim>\<open>gametime_to_realtime\<close> returns the sum of the
  arguments in game seconds (minute 60, hour 3600, day 86400, week 604800, month
  2419200 = 4 weeks, year 29030400 = 12 months) divided by \<^verbatim>\<open>TIMEFACTOR\<close>, and
  \<^verbatim>\<open>realtime_to_gametime\<close> returns \<^verbatim>\<open>TIMEFACTOR\<close> times the sum in real seconds (month
  2628000, year 31536000). The division needs a time factor other than zero.
\<close>

theorem conversions_unformatted:
  assumes "TIMEFACTOR st \<noteq> 0"
  shows "gametime_to_realtime secs mins hrs days weeks months yrs False st =
           Inr (Num ((secs + mins * 60 + hrs * 3600 + days * 86400 + weeks * 604800
                      + months * 2419200 + yrs * 29030400) / TIMEFACTOR st))
       \<and> realtime_to_gametime secs mins hrs days weeks months yrs False st =
           Inr (Num (TIMEFACTOR st * (secs + mins * 60 + hrs * 3600 + days * 86400
                      + weeks * 604800 + months * 2628000 + yrs * 31536000)))"
  using assms
  by (simp add: gametime_to_realtime_def realtime_to_gametime_def
        MIN_unit_def HOUR_def DAY_def WEEK_def MONTH_def YEAR_def)

theorem conversions_unformatted_witness:
  "TIMEFACTOR fresh \<noteq> 0
   \<and> gametime_to_realtime 0 0 0 2 0 1 0 False fresh = Inr (Num 1296000)
   \<and> realtime_to_gametime 0 0 0 2 0 1 0 False fresh = Inr (Num 5601600)"
proof -
  have h: "TIMEFACTOR fresh \<noteq> 0" by (simp add: fresh_def)
  show ?thesis
    using h conversions_unformatted [OF h, of 0 0 0 2 0 1 0] by (simp add: fresh_def)
qed

section \<open>Access functions\<close>

text \<open>
  Claim C8. At the clock reading \<open>now\<close>, in a state whose \<^verbatim>\<open>SERVER_RUNTIME\<close> is the
  number \<open>r\<close>, the unformatted calls return
  \<open>uptime() = now - SERVER_STARTTIME\<close>,
  \<open>runtime() = SERVER_RUNTIME + (now - SERVER_STARTTIME)\<close> and
  \<open>gametime() = runtime() * TIMEFACTOR\<close>.
\<close>

theorem access_functions_unformatted:
  assumes "SERVER_RUNTIME st = Some r"
  shows "uptime False now st = Inr (Num (now - SERVER_STARTTIME st))
       \<and> runtime False now st = Inr (Num (r + (now - SERVER_STARTTIME st)))
       \<and> gametime False now st = Inr (Num ((r + (now - SERVER_STARTTIME st)) * TIMEFACTOR st))"
  using assms by (simp add: uptime_def runtime_def gametime_def)

theorem access_functions_unformatted_witness:
  "SERVER_RUNTIME (fresh\<lparr>SERVER_RUNTIME := Some 900, SERVER_STARTTIME := 100\<rparr>) = Some 900
   \<and> uptime False 160 (fresh\<lparr>SERVER_RUNTIME := Some 900, SERVER_STARTTIME := 100\<rparr>)
       = Inr (Num 60)
   \<and> runtime False 160 (fresh\<lparr>SERVER_RUNTIME := Some 900, SERVER_STARTTIME := 100\<rparr>)
       = Inr (Num 960)
   \<and> gametime False 160 (fresh\<lparr>SERVER_RUNTIME := Some 900, SERVER_STARTTIME := 100\<rparr>)
       = Inr (Num 1920)"
proof -
  have h: "SERVER_RUNTIME (fresh\<lparr>SERVER_RUNTIME := Some 900, SERVER_STARTTIME := 100\<rparr>)
             = Some 900"
    by simp
  show ?thesis
    using h access_functions_unformatted [OF h, of 160] by (simp add: fresh_def)
qed

text \<open>
  Claim C10. Two states with the same \<^verbatim>\<open>SERVER_STARTTIME\<close>, read at the same clock
  reading, give the same \<^verbatim>\<open>uptime(format)\<close> for either value of the flag, whatever
  their \<^verbatim>\<open>SERVER_RUNTIME\<close>, attributes, time factor and backup file.
\<close>

theorem uptime_independent:
  assumes "SERVER_STARTTIME s1 = SERVER_STARTTIME s2"
  shows "uptime format now s1 = uptime format now s2"
  using assms by (simp add: uptime_def)

theorem uptime_independent_witness:
  "SERVER_STARTTIME fresh
     = SERVER_STARTTIME (fresh\<lparr>SERVER_RUNTIME := None, TIMEFACTOR := 7,
                               attributes := [''run_time'' \<mapsto> 900],
                               BACKUP_FILE := Some ''200''\<rparr>)
   \<and> uptime True 3725 fresh
     = uptime True 3725 (fresh\<lparr>SERVER_RUNTIME := None, TIMEFACTOR := 7,
                                attributes := [''run_time'' \<mapsto> 900],
                                BACKUP_FILE := Some ''200''\<rparr>)"
proof -
  have h: "SERVER_STARTTIME fresh
             = SERVER_STARTTIME (fresh\<lparr>SERVER_RUNTIME := None, TIMEFACTOR := 7,
                                       attributes := [''run_time'' \<mapsto> 900],
                                       BACKUP_FILE := Some ''200''\<rparr>)"
    by simp
  show ?thesis using h uptime_independent [OF h, of True 3725] by simp
qed

section \<open>Recovery\<close>

text \<open>
  Claim C1 (fails as stated). The claim: after \<^verbatim>\<open>at_start\<close> the baseline is
  \<open>max(A, B, 0)\<close>, \<open>A\<close> the \<^verbatim>\<open>run_time\<close> attribute and \<open>B\<close> the value of the last
  line of the backup file that starts with a digit, each absent when it cannot be read.
  The code has no lower bound of 0: with no attribute and no file \<^verbatim>\<open>SERVER_RUNTIME\<close>
  becomes \<^verbatim>\<open>None\<close>, and an attribute of -5 with no file gives -5.
\<close>

theorem at_start_not_clamped_counterexample:
  "SERVER_RUNTIME (at_start float_decimal fresh) = None
   \<and> SERVER_RUNTIME (at_start float_decimal (fresh\<lparr>attributes := [''run_time'' \<mapsto> - 5]\<rparr>))
       \<noteq> Some (max (- 5) 0)"
  by (simp add: at_start_def read_last_time_def fresh_def)

text \<open>
  Claim C1, amended. When the attribute store holds a \<^verbatim>\<open>run_time\<close> value \<open>A\<close>, after
  \<^verbatim>\<open>at_start\<close> the baseline is \<open>max(A, B)\<close> if the backup file yields a value \<open>B\<close>
  (the last digit-starting line, parsed), and \<open>A\<close> if the file cannot be read or parsed.
  So the baseline is never below a copy that was read, and 900 against a file holding
  \<^verbatim>\<open>200\<close> gives 900.
\<close>

theorem at_start_takes_larger:
  assumes "attributes st ''run_time'' = Some a"
  shows "SERVER_RUNTIME (at_start pfloat st) =
           Some (case read_last_time pfloat (BACKUP_FILE st) of Inl e \<Rightarrow> a | Inr b \<Rightarrow> max a b)"
  using assms by (auto simp: at_start_def Let_def max_def split: sum.splits)

theorem at_start_takes_larger_witness:
  "attributes (fresh\<lparr>attributes := [''run_time'' \<mapsto> 900], BACKUP_FILE := Some ''200''\<rparr>)
     ''run_time'' = Some 900
   \<and> read_last_time float_decimal (Some ''200'') = Inr 200
   \<and> SERVER_RUNTIME (at_start float_decimal
        (fresh\<lparr>attributes := [''run_time'' \<mapsto> 900], BACKUP_FILE := Some ''200''\<rparr>)) = Some 900"
proof -
  have h: "attributes (fresh\<lparr>attributes := [''run_time'' \<mapsto> 900], BACKUP_FILE := Some ''200''\<rparr>)
             ''run_time'' = Some 900"
    by simp
  have b: "read_last_time float_decimal (Some ''200'') = Inr 200"
    by (simp add: read_last_time_def newline_def carriage_return_def float_eval)
  show ?thesis
    using h b at_start_takes_larger [OF h, of float_decimal] by simp
qed

text \<open>
  Claim C5 (fails as stated). The claim: in every state, for any numeric values of the
  globals and any state of the durable stores, \<^verbatim>\<open>runtime()\<close>, \<^verbatim>\<open>uptime()\<close> and
  \<^verbatim>\<open>gametime()\<close> never raise, missing state defaulting to 0. On the code:
  \<^item> a missing \<^verbatim>\<open>run_time\<close> attribute is not replaced by 0: recovery from an empty store
    and no backup file leaves \<^verbatim>\<open>SERVER_RUNTIME = None\<close>, and then \<^verbatim>\<open>runtime()\<close> and
    \<^verbatim>\<open>gametime()\<close> raise \<^verbatim>\<open>TypeError\<close>;
  \<^item> with \<^verbatim>\<open>SERVER_RUNTIME = 1e308\<close> and a time factor of 10 the game time is an
    infinite float, and \<^verbatim>\<open>gametime(format=True)\<close> raises \<^verbatim>\<open>OverflowError\<close> in the
    \<^verbatim>\<open>int(seconds)\<close> of \<^verbatim>\<open>_format\<close>.
\<close>

theorem access_after_empty_recovery_counterexample:
  "runtime False 10 (at_start float_decimal fresh) = Inl TypeError
   \<and> gametime False 10 (at_start float_decimal fresh) = Inl TypeError
   \<and> gametime True 0 (fresh\<lparr>SERVER_RUNTIME := Some (10 ^ 308), TIMEFACTOR := 10\<rparr>)
       = Inl OverflowError"
  by (simp add: runtime_def gametime_def at_start_def read_last_time_def fresh_def
        formatted_def private_format_def py_int_def float_inf_from_def)

text \<open>
  Claim C5, amended. When \<^verbatim>\<open>SERVER_RUNTIME\<close> is a number and the values involved are
  of magnitude at most \<open>2 ^ 500\<close> (so that every float the functions compute is finite),
  the access functions return a number or a formatted tuple and do not raise, for either
  value of the flag: \<^verbatim>\<open>uptime\<close> under that bound on \<open>now - SERVER_STARTTIME\<close>,
  \<^verbatim>\<open>runtime\<close> under the bounds on it and on \<^verbatim>\<open>SERVER_RUNTIME\<close>, \<^verbatim>\<open>gametime\<close> under
  those and the bound on \<^verbatim>\<open>TIMEFACTOR\<close>. Missing state is not defaulted to 0: when
  \<^verbatim>\<open>SERVER_RUNTIME\<close> is \<^verbatim>\<open>None\<close> (recovery found no \<^verbatim>\<open>run_time\<close> attribute),
  \<^verbatim>\<open>runtime\<close> and \<^verbatim>\<open>gametime\<close> raise \<^verbatim>\<open>TypeError\<close>.
\<close>

theorem access_functions_total_in_range:
  "(\<bar>now - SERVER_STARTTIME st\<bar> \<le> 2 ^ 500 \<longrightarrow> (\<exists>v. uptime format now st = Inr v))
   \<and> (SERVER_RUNTIME st = Some r \<and> \<bar>r\<bar> \<le> 2 ^ 500
        \<and> \<bar>now - SERVER_STARTTIME st\<bar> \<le> 2 ^ 500
        \<longrightarrow> (\<exists>v. runtime format now st = Inr v))
   \<and> (SERVER_RUNTIME st = Some r \<and> \<bar>r\<bar> \<le> 2 ^ 500
        \<and> \<bar>now - SERVER_STARTTIME st\<bar> \<le> 2 ^ 500
        \<and> \<bar>TIMEFACTOR st\<bar> \<le> 2 ^ 500
        \<longrightarrow> (\<exists>v. gametime format now st = Inr v))
   \<and> (SERVER_RUNTIME st = None \<longrightarrow>
        runtime format now st = Inl TypeError \<and> gametime format now st = Inl TypeError)"
proof (intro conjI impI)
  assume "\<bar>now - SERVER_STARTTIME st\<bar> \<le> 2 ^ 500"
  moreover have "(2::rat) ^ 500 \<le> 2 ^ 1023" by simp
  ultimately have "\<bar>now - SERVER_STARTTIME st\<bar> \<le> 2 ^ 1023" by (rule order_trans)
  then have "\<exists>v. formatted (now - SERVER_STARTTIME st) real_divisors = Inr v"
    by (rule formatted_real_total)
  then show "\<exists>v. uptime format now st = Inr v"
    by (simp add: uptime_def Let_def)
next
  assume a: "SERVER_RUNTIME st = Some r \<and> \<bar>r\<bar> \<le> 2 ^ 500
        \<and> \<bar>now - SERVER_STARTTIME st\<bar> \<le> 2 ^ 500"
  then have "\<bar>r + (now - SERVER_STARTTIME st)\<bar> \<le> 2 ^ 501"
    by (intro sum_in_range) simp_all
  moreover have "(2::rat) ^ 501 \<le> 2 ^ 1023" by simp
  ultimately have "\<bar>r + (now - SERVER_STARTTIME st)\<bar> \<le> 2 ^ 1023" by (rule order_trans)
  then have "\<exists>v. formatted (r + (now - SERVER_STARTTIME st)) real_divisors = Inr v"
    by (rule formatted_real_total)
  with a show "\<exists>v. runtime format now st = Inr v"
    by (simp add: runtime_def Let_def)
next
  assume a: "SERVER_RUNTIME st = Some r \<and> \<bar>r\<bar> \<le> 2 ^ 500
        \<and> \<bar>now - SERVER_STARTTIME st\<bar> \<le> 2 ^ 500
        \<and> \<bar>TIMEFACTOR st\<bar> \<le> 2 ^ 500"
  then have "\<bar>(r + (now - SERVER_STARTTIME st)) * TIMEFACTOR st\<bar> \<le> 2 ^ 1023"
    by (intro product_in_range) simp_all
  then have "\<exists>v. formatted ((r + (now - SERVER_STARTTIME st)) * TIMEFACTOR st) game_divisors
               = Inr v"
    by (rule formatted_game_total)
  with a show "\<exists>v. gametime format now st = Inr v"
    by (simp add: gametime_def runtime_def Let_def)
next
  assume "SERVER_RUNTIME st = None"
  then show "runtime format now st = Inl TypeError" by (simp add: runtime_def)
next
  assume "SERVER_RUNTIME st = None"
  then show "gametime format now st = Inl TypeError" by (simp add: gametime_def runtime_def)
qed

theorem access_functions_total_in_range_witness:
  "SERVER_RUNTIME (fresh\<lparr>SERVER_RUNTIME := Some 900, SERVER_STARTTIME := 100\<rparr>) = Some 900
   \<and> (\<exists>v. uptime True 3825 (fresh\<lparr>SERVER_RUNTIME := Some 900, SERVER_STARTTIME := 100\<rparr>)
            = Inr v)
   \<and> (\<exists>v. runtime True 3825 (fresh\<lparr>SERVER_RUNTIME := Some 900, SERVER_STARTTIME := 100\<rparr>)
            = Inr v)
   \<and> (\<exists>v. gametime True 3825 (fresh\<lparr>SERVER_RUNTIME := Some 900, SERVER_STARTTIME := 100\<rparr>)
            = Inr v)
   \<and> SERVER_RUNTIME (fresh\<lparr>SERVER_RUNTIME := None\<rparr>) = None
   \<and> runtime True 3825 (fresh\<lparr>SERVER_RUNTIME := None\<rparr>) = Inl TypeError
   \<and> gametime True 3825 (fresh\<lparr>SERVER_RUNTIME := None\<rparr>) = Inl TypeError"
proof -
  have b: "(900::rat) \<le> 2 ^ 500 \<and> (3725::rat) \<le> 2 ^ 500 \<and> (2::rat) \<le> 2 ^ 500"
    by simp
  show ?thesis
    using b
      access_functions_total_in_range
        [of 3825 "fresh\<lparr>SERVER_RUNTIME := Some 900, SERVER_STARTTIME := 100\<rparr>" True 900]
      access_functions_total_in_range [of 3825 "fresh\<lparr>SERVER_RUNTIME := None\<rparr>" True]
    by (simp add: fresh_def)
qed

section \<open>The periodic tick\<close>

text \<open>
  Claim C9. \<^verbatim>\<open>at_repeat\<close> writes \<^verbatim>\<open>run_time = runtime()\<close> and
  \<^verbatim>\<open>up_time = uptime()\<close> to the attribute store before it checks
  \<^verbatim>\<open>SERVER_RUNTIME < 1000\<close>. When the check sends it into \<^verbatim>\<open>at_start\<close>, the attribute
  read there is the value this tick has just written, whatever the store held before, and
  the new baseline is that value unless the backup file holds a larger one. (With
  \<^verbatim>\<open>SERVER_RUNTIME = None\<close> the first statement raises and nothing is written.)
\<close>

theorem at_repeat_writes_before_check:
  assumes "SERVER_RUNTIME st = Some r"
  shows "\<exists>st'. at_repeat pfloat t1 t2 st = Inr st'
     \<and> attributes st' ''run_time'' = Some (r + (t1 - SERVER_STARTTIME st))
     \<and> attributes st' ''up_time'' = Some (t2 - SERVER_STARTTIME st)
     \<and> SERVER_RUNTIME st' =
         (if r < 1000
          then Some (case read_last_time pfloat (BACKUP_FILE st) of
                       Inl e \<Rightarrow> r + (t1 - SERVER_STARTTIME st)
                     | Inr b \<Rightarrow> max (r + (t1 - SERVER_STARTTIME st)) b)
          else Some r)"
  using assms
  by (auto simp: at_repeat_def runtime_def uptime_def at_start_def Let_def max_def
           split: sum.splits)

theorem at_repeat_writes_before_check_witness:
  "SERVER_RUNTIME (fresh\<lparr>attributes := [''run_time'' \<mapsto> 5000], BACKUP_FILE := Some ''200''\<rparr>)
     = Some 0
   \<and> (\<exists>st'. at_repeat float_decimal 60 61
              (fresh\<lparr>attributes := [''run_time'' \<mapsto> 5000], BACKUP_FILE := Some ''200''\<rparr>)
              = Inr st'
          \<and> attributes st' ''run_time'' = Some 60
          \<and> attributes st' ''up_time'' = Some 61
          \<and> SERVER_RUNTIME st' = Some 200)"
proof -
  have h: "SERVER_RUNTIME (fresh\<lparr>attributes := [''run_time'' \<mapsto> 5000],
                                  BACKUP_FILE := Some ''200''\<rparr>) = Some 0"
    by (simp add: fresh_def)
  have b: "read_last_time float_decimal (Some ''200'') = Inr 200"
    by (simp add: read_last_time_def newline_def carriage_return_def float_eval)
  show ?thesis
    using h b at_repeat_writes_before_check [OF h, of float_decimal 60 61]
    by (simp add: fresh_def)
qed

section \<open>The forced save\<close>

lemma overwrite_idem: "overwrite s (overwrite s text) = overwrite s text"
  by (simp add: overwrite_def)

lemma at_start_keeps:
  "BACKUP_FILE (at_start pfloat st) = BACKUP_FILE st"
  "SERVER_STARTTIME (at_start pfloat st) = SERVER_STARTTIME st"
  "script_exists (at_start pfloat st) = script_exists st"
  by (simp_all add: at_start_def Let_def split: sum.splits option.splits)

lemma at_repeat_keeps:
  assumes "at_repeat pfloat t1 t2 st = Inr st'"
  shows "BACKUP_FILE st' = BACKUP_FILE st"
    and "SERVER_STARTTIME st' = SERVER_STARTTIME st"
    and "script_exists st' = script_exists st"
  using assms
  by (auto simp: at_repeat_def Let_def at_start_keeps split: sum.splits option.splits if_splits)

lemma save_tick_keeps:
  "BACKUP_FILE (save_tick pfloat t1 t2 st) = BACKUP_FILE st"
  "SERVER_STARTTIME (save_tick pfloat t1 t2 st) = SERVER_STARTTIME st"
  "script_exists (save_tick pfloat t1 t2 st) = script_exists st"
  by (auto simp: save_tick_def at_repeat_keeps split: sum.splits)

text \<open>The tick inside \<^verbatim>\<open>save\<close> leaves \<^verbatim>\<open>SERVER_RUNTIME\<close> alone unless it re-runs the
  recovery.\<close>

lemma save_tick_runtime:
  assumes "\<not> script_exists st \<or> SERVER_RUNTIME st = None
           \<or> (\<exists>r. SERVER_RUNTIME st = Some r \<and> 1000 \<le> r)"
  shows "SERVER_RUNTIME (save_tick pfloat t1 t2 st) = SERVER_RUNTIME st"
  using assms
  by (auto simp: save_tick_def at_repeat_def runtime_def uptime_def Let_def split: sum.splits)

lemma save_backup_keeps:
  "SERVER_RUNTIME (save_backup pfloat pstr t3 t4 st) = SERVER_RUNTIME st"
  "SERVER_STARTTIME (save_backup pfloat pstr t3 t4 st) = SERVER_STARTTIME st"
  "script_exists (save_backup pfloat pstr t3 t4 st) = script_exists st"
  by (simp_all add: save_backup_def write_runtime_def Let_def split: sum.splits option.splits)

lemma save_backup_again:
  assumes "SERVER_RUNTIME b = SERVER_RUNTIME a" and "SERVER_STARTTIME b = SERVER_STARTTIME a"
    and "BACKUP_FILE b = BACKUP_FILE (save_backup pfloat pstr t t a)"
  shows "BACKUP_FILE (save_backup pfloat pstr t t b) = BACKUP_FILE b"
  using assms
  by (auto simp: save_backup_def write_runtime_def runtime_def Let_def overwrite_idem
           split: sum.splits option.splits if_splits)

lemma save_twice:
  assumes "\<not> script_exists st \<or> SERVER_RUNTIME st = None
           \<or> (\<exists>r. SERVER_RUNTIME st = Some r \<and> 1000 \<le> r)"
  shows "BACKUP_FILE (save pfloat pstr t t t t (save pfloat pstr t t t t st))
           = BACKUP_FILE (save pfloat pstr t t t t st)"
proof -
  let ?a = "save_tick pfloat t t st"
  let ?s = "save_backup pfloat pstr t t ?a"
  let ?b = "save_tick pfloat t t ?s"
  have ra: "SERVER_RUNTIME ?a = SERVER_RUNTIME st"
    using assms by (rule save_tick_runtime)
  have "\<not> script_exists ?s \<or> SERVER_RUNTIME ?s = None
        \<or> (\<exists>r. SERVER_RUNTIME ?s = Some r \<and> 1000 \<le> r)"
    using assms by (simp add: save_backup_keeps save_tick_keeps ra)
  then have "SERVER_RUNTIME ?b = SERVER_RUNTIME ?s"
    by (rule save_tick_runtime)
  then have r: "SERVER_RUNTIME ?b = SERVER_RUNTIME ?a"
    by (simp add: save_backup_keeps)
  have s: "SERVER_STARTTIME ?b = SERVER_STARTTIME ?a"
    by (simp add: save_tick_keeps save_backup_keeps)
  have f: "BACKUP_FILE ?b = BACKUP_FILE ?s"
    by (simp add: save_tick_keeps)
  have "BACKUP_FILE (save_backup pfloat pstr t t ?b) = BACKUP_FILE ?b"
    using r s f by (rule save_backup_again)
  with f show ?thesis by (simp add: save_def)
qed

lemma save_unchanged_cases:
  assumes "BACKUP_FILE st = None
           \<or> SERVER_RUNTIME st = None
           \<or> (\<exists>text. BACKUP_FILE st = Some text \<and> readline text \<noteq> []
                 \<and> (pfloat (readline text) = None
                     \<or> (\<exists>v rt. pfloat (readline text) = Some v
                           \<and> runtime False t3 (save_tick pfloat t1 t2 st) = Inr (Num rt)
                           \<and> rt \<le> v)))"
  shows "BACKUP_FILE (save pfloat pstr t1 t2 t3 t4 st) = BACKUP_FILE st"
proof -
  let ?a = "save_tick pfloat t1 t2 st"
  have f: "BACKUP_FILE ?a = BACKUP_FILE st" by (simp add: save_tick_keeps)
  have n: "SERVER_RUNTIME st = None \<Longrightarrow> SERVER_RUNTIME ?a = None"
    using save_tick_runtime [of st pfloat t1 t2] by simp
  from assms show ?thesis
    using f n
    by (auto simp: save_def save_backup_def write_runtime_def runtime_def Let_def
             split: option.splits sum.splits)
qed

lemma save_written_cases:
  assumes "BACKUP_FILE st = Some text"
    and "readline text = []
         \<or> (\<exists>v rt. pfloat (readline text) = Some v
               \<and> runtime False t3 (save_tick pfloat t1 t2 st) = Inr (Num rt) \<and> v < rt)"
    and "runtime False t4 (save_tick pfloat t1 t2 st) = Inr (Num rt')"
  shows "BACKUP_FILE (save pfloat pstr t1 t2 t3 t4 st) = Some (overwrite (pstr rt') text)"
proof -
  let ?a = "save_tick pfloat t1 t2 st"
  have f: "BACKUP_FILE ?a = Some text" using assms(1) by (simp add: save_tick_keeps)
  from assms(2,3) show ?thesis
    using f
    by (auto simp: save_def save_backup_def write_runtime_def Let_def
             split: option.splits sum.splits)
qed

text \<open>
  Claim C3 (fails as stated). The claim: \<^verbatim>\<open>save()\<close> leaves the file unchanged when its
  recorded value is present and not less than \<^verbatim>\<open>runtime()\<close> and otherwise overwrites its
  line with \<^verbatim>\<open>runtime()\<close>; so a save never decreases the recorded value, and saves with
  no time elapsed are idempotent. On the code:
  \<^item> a backup file that does not exist has no recorded value, and \<^verbatim>\<open>save()\<close> does not
    create it (mode \<^verbatim>\<open>'r+'\<close>);
  \<^item> with a script whose \<^verbatim>\<open>SERVER_RUNTIME\<close> is below 1000, the tick inside \<^verbatim>\<open>save()\<close>
    re-runs the recovery from the attribute it has just written, which adds the uptime to
    the baseline: two saves at the same clock reading 10 write \<^verbatim>\<open>20.0\<close> and then
    \<^verbatim>\<open>30.0\<close>;
  \<^item> the write does not truncate: \<^verbatim>\<open>2001.0\<close> written over \<^verbatim>\<open>1000000e-5\<close> (the value
    10) leaves \<^verbatim>\<open>2001.00e-5\<close>, the value 0.02001.
\<close>

theorem save_claim_counterexample:
  "BACKUP_FILE (save float_decimal str_decimal 10 10 10 10 (fresh\<lparr>script_exists := True\<rparr>))
     = None
   \<and> BACKUP_FILE (save float_decimal str_decimal 10 10 10 10
        (fresh\<lparr>script_exists := True, BACKUP_FILE := Some ''5''\<rparr>)) = Some ''20.0''
   \<and> BACKUP_FILE (save float_decimal str_decimal 10 10 10 10
        (save float_decimal str_decimal 10 10 10 10
          (fresh\<lparr>script_exists := True, BACKUP_FILE := Some ''5''\<rparr>))) = Some ''30.0''
   \<and> float_decimal (readline ''1000000e-5'') = Some 10
   \<and> BACKUP_FILE (save float_decimal str_decimal 1 1 1 1
        (fresh\<lparr>SERVER_RUNTIME := Some 2000, BACKUP_FILE := Some ''1000000e-5''\<rparr>))
       = Some ''2001.00e-5''
   \<and> float_decimal (readline ''2001.00e-5'') = Some (2001 / 100000)"
  by (simp add: run_eval float_eval str_eval)

text \<open>
  Claim C3, amended. Let \<^verbatim>\<open>runtime()\<close> be read after the tick that \<^verbatim>\<open>save()\<close> runs
  first. \<^verbatim>\<open>save()\<close> leaves the backup file as it is when the file cannot be opened, when
  its first line is not empty and \<^verbatim>\<open>float\<close> rejects it, and when its first line is a
  number not less than \<^verbatim>\<open>runtime()\<close>. When the file is empty or its first line is a
  number less than \<^verbatim>\<open>runtime()\<close>, the text \<^verbatim>\<open>str(runtime())\<close> (a second reading) is
  written over the beginning of the file and the characters beyond it stay. A second
  \<^verbatim>\<open>save()\<close> at the same clock reading leaves the file as the first one left it whenever
  the tick does not re-run the recovery: no script, or \<^verbatim>\<open>SERVER_RUNTIME\<close> not a number
  below 1000.
\<close>

theorem save_backup_file_cases:
  "(BACKUP_FILE st = None \<longrightarrow> BACKUP_FILE (save pfloat pstr t1 t2 t3 t4 st) = None)
   \<and> (BACKUP_FILE st = Some content \<and> readline content \<noteq> [] \<and> pfloat (readline content) = None
        \<longrightarrow> BACKUP_FILE (save pfloat pstr t1 t2 t3 t4 st) = Some content)
   \<and> (BACKUP_FILE st = Some content \<and> readline content \<noteq> [] \<and> pfloat (readline content) = Some v
        \<and> runtime False t3 (save_tick pfloat t1 t2 st) = Inr (Num rt) \<and> rt \<le> v
        \<longrightarrow> BACKUP_FILE (save pfloat pstr t1 t2 t3 t4 st) = Some content)
   \<and> (BACKUP_FILE st = Some content
        \<and> (readline content = []
            \<or> pfloat (readline content) = Some v
               \<and> runtime False t3 (save_tick pfloat t1 t2 st) = Inr (Num rt) \<and> v < rt)
        \<and> runtime False t4 (save_tick pfloat t1 t2 st) = Inr (Num rt')
        \<longrightarrow> BACKUP_FILE (save pfloat pstr t1 t2 t3 t4 st) = Some (overwrite (pstr rt') content))
   \<and> (\<not> script_exists st \<or> SERVER_RUNTIME st = None
          \<or> (\<exists>r. SERVER_RUNTIME st = Some r \<and> 1000 \<le> r)
        \<longrightarrow> BACKUP_FILE (save pfloat pstr t t t t (save pfloat pstr t t t t st))
              = BACKUP_FILE (save pfloat pstr t t t t st))"
proof (intro conjI impI)
  assume "BACKUP_FILE st = None"
  then show "BACKUP_FILE (save pfloat pstr t1 t2 t3 t4 st) = None"
    using save_unchanged_cases [of st pfloat t3 t1 t2 pstr t4] by simp
next
  assume a: "BACKUP_FILE st = Some content \<and> readline content \<noteq> [] \<and> pfloat (readline content) = None"
  then have "BACKUP_FILE (save pfloat pstr t1 t2 t3 t4 st) = BACKUP_FILE st"
    by (intro save_unchanged_cases) auto
  with a show "BACKUP_FILE (save pfloat pstr t1 t2 t3 t4 st) = Some content" by simp
next
  assume a: "BACKUP_FILE st = Some content \<and> readline content \<noteq> [] \<and> pfloat (readline content) = Some v
        \<and> runtime False t3 (save_tick pfloat t1 t2 st) = Inr (Num rt) \<and> rt \<le> v"
  then have "BACKUP_FILE (save pfloat pstr t1 t2 t3 t4 st) = BACKUP_FILE st"
    by (intro save_unchanged_cases) auto
  with a show "BACKUP_FILE (save pfloat pstr t1 t2 t3 t4 st) = Some content" by simp
next
  assume a: "BACKUP_FILE st = Some content
        \<and> (readline content = []
            \<or> pfloat (readline content) = Some v
               \<and> runtime False t3 (save_tick pfloat t1 t2 st) = Inr (Num rt) \<and> v < rt)
        \<and> runtime False t4 (save_tick pfloat t1 t2 st) = Inr (Num rt')"
  then show "BACKUP_FILE (save pfloat pstr t1 t2 t3 t4 st) = Some (overwrite (pstr rt') content)"
    by (intro save_written_cases) auto
next
  assume "\<not> script_exists st \<or> SERVER_RUNTIME st = None
          \<or> (\<exists>r. SERVER_RUNTIME st = Some r \<and> 1000 \<le> r)"
  then show "BACKUP_FILE (save pfloat pstr t t t t (save pfloat pstr t t t t st))
              = BACKUP_FILE (save pfloat pstr t t t t st)"
    by (rule save_twice)
qed

theorem save_backup_file_cases_witness:
  "BACKUP_FILE (save float_decimal str_decimal 10 10 10 10 (fresh\<lparr>script_exists := True\<rparr>))
     = None
   \<and> BACKUP_FILE (save float_decimal str_decimal 10 10 10 10
        (fresh\<lparr>script_exists := True, BACKUP_FILE := Some ''abc''\<rparr>)) = Some ''abc''
   \<and> BACKUP_FILE (save float_decimal str_decimal 10 10 10 10
        (fresh\<lparr>SERVER_RUNTIME := Some 2000, script_exists := True,
                BACKUP_FILE := Some ''5000''\<rparr>)) = Some ''5000''
   \<and> BACKUP_FILE (save float_decimal str_decimal 10 10 10 10
        (fresh\<lparr>SERVER_RUNTIME := Some 2000, script_exists := True,
                BACKUP_FILE := Some ''5''\<rparr>)) = Some ''2010.0''
   \<and> BACKUP_FILE (save float_decimal str_decimal 10 10 10 10
        (save float_decimal str_decimal 10 10 10 10
          (fresh\<lparr>SERVER_RUNTIME := Some 2000, script_exists := True,
                  BACKUP_FILE := Some ''5''\<rparr>))) = Some ''2010.0''"
proof -
  let ?s = "fresh\<lparr>SERVER_RUNTIME := Some 2000, script_exists := True\<rparr>"
  have tick: "\<And>f. runtime False 10 (save_tick float_decimal 10 10
                      (fresh\<lparr>SERVER_RUNTIME := Some 2000, script_exists := True,
                              BACKUP_FILE := f\<rparr>)) = Inr (Num 2010)"
    by (simp add: save_tick_def at_repeat_def runtime_def uptime_def fresh_def)
  have abc: "readline ''abc'' = ''abc'' \<and> float_decimal ''abc'' = None"
    by (simp add: readline_def newline_def carriage_return_def float_eval)
  have n5000: "readline ''5000'' = ''5000'' \<and> float_decimal ''5000'' = Some 5000"
    by (simp add: readline_def newline_def carriage_return_def float_eval)
  have n5: "readline ''5'' = ''5'' \<and> float_decimal ''5'' = Some 5"
    by (simp add: readline_def newline_def carriage_return_def float_eval)
  have str: "overwrite (str_decimal 2010) ''5'' = ''2010.0''"
    by (simp add: overwrite_def str_eval)
  show ?thesis
    using tick abc n5000 n5 str
      save_backup_file_cases [where st = "fresh\<lparr>script_exists := True\<rparr>"
        and pfloat = float_decimal and pstr = str_decimal
        and ?t1.0 = 10 and ?t2.0 = 10 and ?t3.0 = 10 and ?t4.0 = 10]
      save_backup_file_cases [where st = "fresh\<lparr>script_exists := True, BACKUP_FILE := Some ''abc''\<rparr>"
        and pfloat = float_decimal and pstr = str_decimal and content = "''abc''"
        and ?t1.0 = 10 and ?t2.0 = 10 and ?t3.0 = 10 and ?t4.0 = 10]
      save_backup_file_cases [where st = "fresh\<lparr>SERVER_RUNTIME := Some 2000,
          script_exists := True, BACKUP_FILE := Some ''5000''\<rparr>"
        and pfloat = float_decimal and pstr = str_decimal and content = "''5000''"
        and v = 5000 and rt = 2010
        and ?t1.0 = 10 and ?t2.0 = 10 and ?t3.0 = 10 and ?t4.0 = 10]
      save_backup_file_cases [where st = "fresh\<lparr>SERVER_RUNTIME := Some 2000,
          script_exists := True, BACKUP_FILE := Some ''5''\<rparr>"
        and pfloat = float_decimal and pstr = str_decimal and content = "''5''"
        and v = 5 and rt = 2010 and rt' = 2010 and t = 10
        and ?t1.0 = 10 and ?t2.0 = 10 and ?t3.0 = 10 and ?t4.0 = 10]
    by (simp add: fresh_def)
qed

end
